theory Spec2Isabelle
  imports Main "HOL-Library.Sublist" "HOL-Library.AList"
begin

section \<open>Strings\<close>

text \<open>
  A JavaScript string is a sequence of code units; it is modelled as a \<open>string\<close>
  (a list of characters). The two library methods that \<open>js/main.js\<close> calls on strings are
  written out for a string pattern and a replacement without \<open>$\<close> patterns, which is how
  the source calls them.

  \<open>replaceAll\<close> scans from the left, replaces every occurrence of the pattern and
  resumes after the occurrence; with the empty pattern it puts the replacement before
  every code unit and at the end.
\<close>

function replaceAll :: "'a list \<Rightarrow> 'a list \<Rightarrow> 'a list \<Rightarrow> 'a list" where
  "replaceAll s pat rep =
     (if pat = [] then rep @ concat (map (\<lambda>c. c # rep) s)
      else if s = [] then []
      else if prefix pat s then rep @ replaceAll (drop (length pat) s) pat rep
      else hd s # replaceAll (tl s) pat rep)"
  by pat_completeness auto
termination
  by (relation "measure (\<lambda>(s, pat, rep). length s)") auto

declare replaceAll.simps [simp del]

text \<open>\<open>replace\<close> with a string pattern replaces the first occurrence only.\<close>

fun replace :: "'a list \<Rightarrow> 'a list \<Rightarrow> 'a list \<Rightarrow> 'a list" where
  "replace [] pat rep = (if pat = [] then rep else [])"
| "replace (c # cs) pat rep =
     (if prefix pat (c # cs) then rep @ drop (length pat) (c # cs)
      else c # replace cs pat rep)"

text \<open>\<open>String(n)\<close> for a non-negative integer: its decimal digits.\<close>

fun decimal :: "nat \<Rightarrow> string" where
  "decimal n =
     (if n < 10 then [char_of (48 + n)]
      else decimal (n div 10) @ [char_of (48 + n mod 10)])"

declare decimal.simps [simp del]

text \<open>
  \<open>escapeHtml\<close>, lines 10 to 17. The argument is a citation, a string, so \<open>String(str)\<close>
  is the argument itself. The five replacements run in the order of the source.
\<close>

definition escapeHtml :: "string \<Rightarrow> string" where
  "escapeHtml str =
     replaceAll
       (replaceAll
         (replaceAll
           (replaceAll
             (replaceAll str ''&'' ''&amp;'')
             ''<'' ''&lt;'')
           ''>'' ''&gt;'')
         [CHR 0x22] ''&quot;'')
       [CHR 0x27] ''&#39;''"

text \<open>
  What the five passes do to one character, and the character references that
  \<open>escapeHtml\<close> writes. Both are used to state and prove properties only.
\<close>

definition escape_char :: "char \<Rightarrow> string" where
  "escape_char c =
     (if c = CHR ''&'' then ''&amp;''
      else if c = CHR ''<'' then ''&lt;''
      else if c = CHR ''>'' then ''&gt;''
      else if c = CHR 0x22 then ''&quot;''
      else if c = CHR 0x27 then ''&#39;''
      else [c])"

definition references :: "string list" where
  "references = [''&amp;'', ''&lt;'', ''&gt;'', ''&quot;'', ''&#39;'']"

text \<open>
  Truthiness of an optional string (\<open>if (x)\<close> in the source): \<open>undefined\<close> and the
  empty string are falsy, every other string is truthy.
\<close>

fun truthy :: "string option \<Rightarrow> bool" where
  "truthy None = False"
| "truthy (Some s) = (s \<noteq> [])"

section \<open>The data\<close>

text \<open>
  The document \<open>data/publications.json\<close>: three optional groups of records and an
  optional time stamp. A record has a label, a citation and an optional url.
\<close>

record pubrec =
  label :: string
  citation :: string
  url :: "string option"

record pubdoc =
  journals :: "pubrec list option"
  conferences :: "pubrec list option"
  book_chapters :: "pubrec list option"
  generated_utc :: "string option"

record site_config =
  scholarProfileUrl :: "string option"
  orcidId :: "string option"

definition siteConfig :: site_config where
  "siteConfig =
     \<lparr> scholarProfileUrl = Some ''https://scholar.google.com/citations?user=pbAP-VQAAAAJ&hl=en'',
       orcidId = Some ''0000-0002-8696-0920'' \<rparr>"

section \<open>The display tree\<close>

text \<open>
  A node is an element (tag name, class name, attributes, child nodes), a text node, or
  markup assigned through \<open>innerHTML\<close> and kept as the string that was assigned: parsing
  it is the browser's work.
\<close>

datatype node =
    Element (localName: string) (className: string)
            (attributes: "(string \<times> string) list") (childNodes: "node list")
  | Text string
  | Markup string

definition createElement :: "string \<Rightarrow> node" where
  "createElement t = Element t [] [] []"

fun set_className :: "string \<Rightarrow> node \<Rightarrow> node" where
  "set_className c (Element t _ a ks) = Element t c a ks"
| "set_className c n = n"

fun set_textContent :: "string \<Rightarrow> node \<Rightarrow> node" where
  "set_textContent s (Element t c a _) = Element t c a (if s = [] then [] else [Text s])"
| "set_textContent s n = n"

fun set_innerHTML :: "string \<Rightarrow> node \<Rightarrow> node" where
  "set_innerHTML s (Element t c a _) = Element t c a (if s = [] then [] else [Markup s])"
| "set_innerHTML s n = n"

fun set_attribute :: "string \<Rightarrow> string \<Rightarrow> node \<Rightarrow> node" where
  "set_attribute k v (Element t c a ks) = Element t c (AList.update k v a) ks"
| "set_attribute k v n = n"

fun appendChild :: "node \<Rightarrow> node \<Rightarrow> node" where
  "appendChild (Element t c a ks) child = Element t c a (ks @ [child])"
| "appendChild n child = n"

text \<open>
  Two readings of a tree, used to state properties: the link elements in it, and the
  markup strings in it, both in document order.
\<close>

fun anchors :: "node \<Rightarrow> node list" where
  "anchors (Element t c a ks) =
     (if t = ''a'' then [Element t c a ks] else []) @ concat (map anchors ks)"
| "anchors (Text s) = []"
| "anchors (Markup s) = []"

fun markups :: "node \<Rightarrow> string list" where
  "markups (Element t c a ks) = concat (map markups ks)"
| "markups (Text s) = []"
| "markups (Markup s) = [s]"

text \<open>
  How markup without tags is read as text. A \<open><\<close> would open a tag, and an \<open>&\<close> begins a
  character reference; the references read here are the five that \<open>escapeHtml\<close> writes,
  each standing for one character. Every other character is taken as it is. Markup with a
  \<open><\<close>, or with an \<open>&\<close> that begins none of the five references, is not text of this
  kind, and the result is \<open>None\<close>.
\<close>

fun read_text :: "string \<Rightarrow> string option" where
  "read_text [] = Some []"
| "read_text (c # cs) =
     (if c = CHR ''<'' then None
      else if c = CHR ''&'' then
        (if prefix ''amp;'' cs then map_option ((#) CHR ''&'') (read_text (drop 4 cs))
         else if prefix ''lt;'' cs then map_option ((#) CHR ''<'') (read_text (drop 3 cs))
         else if prefix ''gt;'' cs then map_option ((#) CHR ''>'') (read_text (drop 3 cs))
         else if prefix ''quot;'' cs then map_option ((#) CHR 0x22) (read_text (drop 5 cs))
         else if prefix ''#39;'' cs then map_option ((#) CHR 0x27) (read_text (drop 4 cs))
         else None)
      else map_option ((#) c) (read_text cs))"

text \<open>
  Two more readings of a tree, used to state properties: the text that a tree shows (the
  text nodes and the markup read as text, in document order; \<open>None\<close> if some markup in it
  is not text), and the elements of a class name.
\<close>

fun rendered_text :: "node \<Rightarrow> string option" where
  "rendered_text (Element t c a ks) = map_option concat (those (map rendered_text ks))"
| "rendered_text (Text s) = Some s"
| "rendered_text (Markup m) = read_text m"

fun by_class :: "string \<Rightarrow> node \<Rightarrow> node list" where
  "by_class cl (Element t c a ks) =
     (if c = cl then [Element t c a ks] else []) @ concat (map (by_class cl) ks)"
| "by_class cl (Text s) = []"
| "by_class cl (Markup m) = []"

text \<open>
  The host page. Its markup is not part of \<open>js/main.js\<close>, so every operation takes the
  page as an argument. \<open>byId\<close> is the selection of a field: the page provides the element
  of every identifier the script asks for (\<open>year\<close>, \<open>scholarLink\<close>, \<open>orcidLink\<close>,
  \<open>pubList\<close>, \<open>pubUpdated\<close>) and the elements of class \<open>tab\<close>, in document order, outside
  the publications list. For \<open>pubList\<close> the field holds the child nodes, for \<open>year\<close> and
  \<open>pubUpdated\<close> the text content. A tab has the value of its attribute \<open>data-tab\<close>
  (\<open>None\<close> when the attribute is missing) and its class list.
\<close>

record link =
  href :: string
  textContent :: string

record tab =
  dataset_tab :: "string option"
  classList :: "string list"

record page =
  year :: string
  scholarLink :: link
  orcidLink :: link
  pubList :: "node list"
  pubUpdated :: string
  tabs :: "tab list"

section \<open>Profile links\<close>

text \<open>
  \<open>setProfileLinks\<close>, lines 19 to 39. The source reads the global \<open>siteConfig\<close>; the model
  takes the configuration as an argument, so that an edited configuration can be stated.
\<close>

definition setProfileLinks :: "site_config \<Rightarrow> page \<Rightarrow> page" where
  "setProfileLinks cfg p =
     (let scholar =
            (case scholarProfileUrl cfg of
               Some u \<Rightarrow>
                 if u \<noteq> [] then \<lparr> href = u, textContent = ''Open profile'' \<rparr>
                 else \<lparr> href = ''#'',
                        textContent = ''https://scholar.google.com/citations?user=pbAP-VQAAAAJ&hl=en'' \<rparr>
             | None \<Rightarrow>
                 \<lparr> href = ''#'',
                   textContent = ''https://scholar.google.com/citations?user=pbAP-VQAAAAJ&hl=en'' \<rparr>);
          orcid =
            (case orcidId cfg of
               Some i \<Rightarrow>
                 if i \<noteq> [] then \<lparr> href = ''https://orcid.org/'' @ i, textContent = i \<rparr>
                 else \<lparr> href = ''#'', textContent = ''Add your ORCID'' \<rparr>
             | None \<Rightarrow> \<lparr> href = ''#'', textContent = ''Add your ORCID'' \<rparr>)
      in p\<lparr> scholarLink := scholar, orcidLink := orcid \<rparr>)"

section \<open>Loading the document\<close>

text \<open>
  Errors are values. \<open>fetch\<close> rejects on a transport failure; a response has the flag
  \<open>ok\<close> and a body whose \<open>json()\<close> is the parsed document, or rejects with a syntax
  error (\<open>None\<close>).
\<close>

datatype error = TypeError | SyntaxError | Error string

record response =
  ok :: bool
  json :: "pubdoc option"

record env =
  now :: nat
  full_year :: nat
  fetch :: "string \<Rightarrow> error + response"

definition loadPublications :: "env \<Rightarrow> error + pubdoc" where
  "loadPublications e =
     (let url = ''data/publications.json?v='' @ decimal (now e) in
      case fetch e url of
        Inl err \<Rightarrow> Inl err
      | Inr res \<Rightarrow>
          if \<not> ok res then Inl (Error ''Could not load publications.json'')
          else (case json res of None \<Rightarrow> Inl SyntaxError | Some d \<Rightarrow> Inr d))"

section \<open>Rendering a group\<close>

text \<open>
  The state of the running script: the object that \<open>pubData\<close> refers to, the variable
  \<open>active\<close> of \<open>initTabs\<close>, and the page. The document is part of the state, so a write
  to it would show in the result.
\<close>

record world =
  pubData :: pubdoc
  active :: "string option"
  display :: page

text \<open>
  The value of \<open>groups[tabKey]\<close>. \<open>groups\<close> is an object literal with three own
  properties, each an array; a key that is not an own property is looked up in
  \<open>Object.prototype\<close>, whose members are functions and objects: truthy, not arrays. A
  key that is \<open>undefined\<close> (a tab without the attribute \<open>data-tab\<close>) is the
  property name \<open>undefined\<close>.
\<close>

datatype member = Undefined | Array "pubrec list" | Inherited string

definition ToPropertyKey :: "string option \<Rightarrow> string" where
  "ToPropertyKey k = (case k of None \<Rightarrow> ''undefined'' | Some s \<Rightarrow> s)"

definition object_prototype :: "string list" where
  "object_prototype =
     [''constructor'', ''hasOwnProperty'', ''isPrototypeOf'', ''propertyIsEnumerable'',
      ''toLocaleString'', ''toString'', ''valueOf'', ''__proto__'',
      ''__defineGetter__'', ''__defineSetter__'', ''__lookupGetter__'', ''__lookupSetter__'']"

definition get_member :: "(string \<times> pubrec list) list \<Rightarrow> string option \<Rightarrow> member" where
  "get_member obj k =
     (let key = ToPropertyKey k in
      case map_of obj key of
        Some a \<Rightarrow> Array a
      | None \<Rightarrow> if key \<in> set object_prototype then Inherited key else Undefined)"

text \<open>\<open>x || []\<close>: an array is truthy, also the empty one; \<open>undefined\<close> is falsy.\<close>

fun or_empty :: "pubrec list option \<Rightarrow> pubrec list" where
  "or_empty None = []"
| "or_empty (Some a) = a"

fun member_or_empty :: "member \<Rightarrow> member" where
  "member_or_empty Undefined = Array []"
| "member_or_empty m = m"

text \<open>The body of the callback of \<open>items.forEach\<close>, lines 63 to 92: the list item of a record.\<close>

definition pub_item :: "pubrec \<Rightarrow> node" where
  "pub_item it =
     (let li = set_className ''pub-item'' (createElement ''li'');
          tag = set_textContent (label it) (set_className ''pub-tag'' (createElement ''div''));
          body = createElement ''div'';
          cit = set_innerHTML (escapeHtml (citation it))
                  (set_className ''pub-cit'' (createElement ''div''));
          body = appendChild body cit;
          links = set_className ''pub-links'' (createElement ''div'');
          links =
            (if truthy (url it) then
               (let a = createElement ''a'';
                    a = set_attribute ''href'' (case url it of Some u \<Rightarrow> u | None \<Rightarrow> []) a;
                    a = set_attribute ''target'' ''_blank'' a;
                    a = set_attribute ''rel'' ''noreferrer'' a;
                    a = set_textContent ''DOI'' a
                in appendChild links a)
             else links);
          body = appendChild body links;
          li = appendChild li tag;
          li = appendChild li body
      in li)"

fun forEach :: "pubrec list \<Rightarrow> page \<Rightarrow> page" where
  "forEach [] p = p"
| "forEach (it # its) p = forEach its (p\<lparr> pubList := pubList p @ [pub_item it] \<rparr>)"

text \<open>The text of the freshness line, lines 97 to 101.\<close>

definition freshness :: "pubdoc \<Rightarrow> string" where
  "freshness d =
     (case generated_utc d of
        Some g \<Rightarrow>
          if g \<noteq> [] then ''Last updated '' @ replace (replace g ''T'' '' '') ''Z'' '' UTC''
          else []
      | None \<Rightarrow> [])"

text \<open>
  \<open>renderPublications\<close>, lines 50 to 102. The result is the exception thrown, if any,
  and the state at that moment: what was written to the page before a throw stays written.
  A value of \<open>groups[tabKey]\<close> that is not an array has no \<open>forEach\<close>, and the call
  throws a \<open>TypeError\<close>.
\<close>

definition renderPublications :: "string option \<Rightarrow> world \<Rightarrow> error option \<times> world" where
  "renderPublications tabKey w =
     (let p1 = (display w)\<lparr> pubList := [] \<rparr>;
          groups =
            [(''journals'', or_empty (journals (pubData w))),
             (''conferences'', or_empty (conferences (pubData w))),
             (''book_chapters'', or_empty (book_chapters (pubData w)))];
          items = member_or_empty (get_member groups tabKey)
      in case items of
           Array its \<Rightarrow>
             (let p2 = forEach its p1
              in (None, w\<lparr> display := p2\<lparr> pubUpdated := freshness (pubData w) \<rparr> \<rparr>))
         | _ \<Rightarrow> (Some TypeError, w\<lparr> display := p1 \<rparr>))"

text \<open>
  The records of a group of the document, an absent group being the empty sequence, and
  the three recognized keys; used to state properties.
\<close>

definition group :: "pubdoc \<Rightarrow> string option \<Rightarrow> pubrec list" where
  "group d k =
     (if k = Some ''journals'' then or_empty (journals d)
      else if k = Some ''conferences'' then or_empty (conferences d)
      else if k = Some ''book_chapters'' then or_empty (book_chapters d)
      else [])"

definition recognized :: "string option list" where
  "recognized = [Some ''journals'', Some ''conferences'', Some ''book_chapters'']"

section \<open>Tabs\<close>

text \<open>\<open>classList.toggle(token, force)\<close> on a list of distinct tokens.\<close>

definition toggle :: "string \<Rightarrow> bool \<Rightarrow> string list \<Rightarrow> string list" where
  "toggle token force cl =
     (if force then (if token \<in> set cl then cl else cl @ [token])
      else removeAll token cl)"

definition setActive :: "string option \<Rightarrow> world \<Rightarrow> error option \<times> world" where
  "setActive key w =
     (let w1 = w\<lparr> active := key \<rparr>;
          mark = (\<lambda>t. t\<lparr> classList := toggle ''active'' (dataset_tab t = key) (classList t) \<rparr>);
          w2 = w1\<lparr> display := (display w1)\<lparr> tabs := map mark (tabs (display w1)) \<rparr> \<rparr>
      in renderPublications (active w2) w2)"

text \<open>
  \<open>initTabs\<close>, lines 104 to 119. The listener that it attaches to the tab at position
  \<open>i\<close> is \<open>click i\<close>.
\<close>

definition initTabs :: "pubdoc \<Rightarrow> page \<Rightarrow> error option \<times> world" where
  "initTabs d p = setActive (Some ''journals'') \<lparr> pubData = d, active = Some ''journals'', display = p \<rparr>"

definition click :: "nat \<Rightarrow> world \<Rightarrow> error option \<times> world" where
  "click i w =
     (if i < length (tabs (display w)) then setActive (dataset_tab (tabs (display w) ! i)) w
      else (None, w))"

text \<open>
  A session: the tabs clicked one after the other. An exception thrown by a listener is
  reported and does not stop the page; the session keeps the outcome of every click.
\<close>

fun clicks :: "nat list \<Rightarrow> world \<Rightarrow> error option list \<times> world" where
  "clicks [] w = ([], w)"
| "clicks (i # is) w =
     (let (e, w1) = click i w; (es, w2) = clicks is w1 in (e # es, w2))"

text \<open>
  The state in which the key \<open>k\<close> is selected, for the document \<open>d\<close> and a page whose
  tabs carry the keys \<open>ks\<close>; used in the proofs about sessions.
\<close>

definition selected :: "pubdoc \<Rightarrow> string option list \<Rightarrow> string option \<Rightarrow> world \<Rightarrow> bool" where
  "selected d ks k w \<longleftrightarrow>
     pubData w = d \<and> map dataset_tab (tabs (display w)) = ks \<and> active w = k \<and>
     map dataset_tab (filter (\<lambda>t. ''active'' \<in> set (classList t)) (tabs (display w))) = [k] \<and>
     pubList (display w) = map pub_item (group d k)"

section \<open>Initialization\<close>

definition notice :: string where
  "notice = ''<li class='pub-item'><div class='pub-tag'>info</div><div class='pub-cit'>Publications could not be loaded. Check data/publications.json.</div></li>''"

text \<open>
  \<open>main\<close>, lines 121 to 132. The \<open>try\<close> block holds the load and \<open>initTabs\<close>; the
  \<open>catch\<close> block replaces the content of the list by the notice.
\<close>

definition main :: "site_config \<Rightarrow> env \<Rightarrow> page \<Rightarrow> error option \<times> page" where
  "main cfg e p0 =
     (let p1 = p0\<lparr> year := decimal (full_year e) \<rparr>;
          p2 = setProfileLinks cfg p1
      in case loadPublications e of
           Inl err \<Rightarrow> (None, p2\<lparr> pubList := [Markup notice] \<rparr>)
         | Inr d \<Rightarrow>
             (case initTabs d p2 of
                (None, w) \<Rightarrow> (None, display w)
              | (Some err, w) \<Rightarrow> (None, (display w)\<lparr> pubList := [Markup notice] \<rparr>)))"

text \<open>The number of positions of a string at which a pattern begins.\<close>

fun occurrences :: "'a list \<Rightarrow> 'a list \<Rightarrow> nat" where
  "occurrences pat [] = (if pat = [] then 1 else 0)"
| "occurrences pat (c # cs) = (if prefix pat (c # cs) then 1 else 0) + occurrences pat cs"

section \<open>Example values\<close>

text \<open>A host page with the three tabs, a document, and records, for concrete instances.\<close>

definition example_page :: page where
  "example_page =
     \<lparr> year = [],
       scholarLink = \<lparr> href = ''#'', textContent = [] \<rparr>,
       orcidLink = \<lparr> href = ''#'', textContent = [] \<rparr>,
       pubList = [],
       pubUpdated = [],
       tabs =
         [\<lparr> dataset_tab = Some ''journals'', classList = [''tab'', ''active''] \<rparr>,
          \<lparr> dataset_tab = Some ''conferences'', classList = [''tab''] \<rparr>,
          \<lparr> dataset_tab = Some ''book_chapters'', classList = [''tab''] \<rparr>] \<rparr>"

definition example_j1 :: pubrec where
  "example_j1 = \<lparr> label = ''j1'', citation = ''A. Author. Signals & Systems <draft>. 2020.'',
                  url = Some ''https://doi.org/10.1000/1'' \<rparr>"

definition example_j2 :: pubrec where
  "example_j2 = \<lparr> label = ''j2'', citation = ''B. Author. Second paper. 2021.'', url = None \<rparr>"

definition example_b1 :: pubrec where
  "example_b1 = \<lparr> label = ''b1'', citation = ''C. Author. A chapter. 2022.'', url = Some [] \<rparr>"

definition example_doc :: pubdoc where
  "example_doc =
     \<lparr> journals = Some [example_j1, example_j2],
       conferences = None,
       book_chapters = Some [example_b1],
       generated_utc = Some ''2024-01-02T03:04:05Z'' \<rparr>"

definition example_env :: env where
  "example_env =
     \<lparr> now = 1700000000000, full_year = 2024,
       fetch = (\<lambda>u. Inr \<lparr> ok = False, json = None \<rparr>) \<rparr>"

definition example_world :: world where
  "example_world = \<lparr> pubData = example_doc, active = None, display = example_page \<rparr>"

section \<open>Properties of \<open>escapeHtml\<close>\<close>

lemma replaceAll_single:
  "replaceAll s [c] rep = concat (map (\<lambda>x. if x = c then rep else [x]) s)"
proof (induction s)
  case Nil
  show ?case by (subst replaceAll.simps) simp
next
  case (Cons x s)
  then show ?case by (subst replaceAll.simps) auto
qed

lemma escapeHtml_chars: "escapeHtml s = concat (map escape_char s)"
  unfolding escapeHtml_def replaceAll_single
  by (induction s) (simp_all add: escape_char_def)

lemma escape_char_plain:
  "set (escape_char c) \<inter> {CHR ''<'', CHR ''>'', CHR 0x22, CHR 0x27} = {}"
  by (simp add: escape_char_def)

lemma escapeHtml_plain:
  "c \<in> set (escapeHtml s) \<Longrightarrow> c \<notin> {CHR ''<'', CHR ''>'', CHR 0x22, CHR 0x27}"
  using escape_char_plain by (fastforce simp: escapeHtml_chars)

lemma escape_char_amp:
  assumes "i < length (escape_char c)" and "escape_char c ! i = CHR ''&''"
  shows "i = 0 \<and> escape_char c \<in> set references"
  using assms
  by (auto simp: escape_char_def references_def nth_Cons' less_Suc_eq split: if_splits)

lemma concat_amp:
  "i < length (concat (map escape_char s)) \<Longrightarrow> concat (map escape_char s) ! i = CHR ''&'' \<Longrightarrow>
   \<exists>r \<in> set references. prefix r (drop i (concat (map escape_char s)))"
proof (induction s arbitrary: i)
  case Nil
  then show ?case by simp
next
  case (Cons c s)
  let ?h = "escape_char c" and ?t = "concat (map escape_char s)"
  show ?case
  proof (cases "i < length ?h")
    case True
    with Cons.prems have "?h ! i = CHR ''&''" by (simp add: nth_append)
    with True have "i = 0" and "?h \<in> set references"
      using escape_char_amp by blast+
    then show ?thesis by (intro bexI [of _ ?h]) simp_all
  next
    case False
    with Cons.prems have "i - length ?h < length ?t" and "?t ! (i - length ?h) = CHR ''&''"
      by (auto simp: nth_append)
    from Cons.IH [OF this] False show ?thesis by simp
  qed
qed

lemma read_text_escape_char:
  "read_text (escape_char c @ rest) = map_option ((#) c) (read_text rest)"
  by (simp add: escape_char_def)

lemma read_text_escapeHtml: "read_text (escapeHtml s) = Some s"
  unfolding escapeHtml_chars
  by (induction s) (simp_all add: read_text_escape_char del: read_text.simps(2))

lemma escapeHtml_Nil: "escapeHtml s = [] \<longleftrightarrow> s = []"
  by (cases s) (simp_all add: escapeHtml_chars escape_char_def)

lemma read_text_tag: "read_text ''<b>'' = None"
  by simp

section \<open>Properties of rendering\<close>

lemma forEach_pubList: "forEach its p = p\<lparr> pubList := pubList p @ map pub_item its \<rparr>"
  by (induction its arbitrary: p) simp_all

lemma render_recognized:
  "k \<in> set recognized \<Longrightarrow>
   renderPublications k w =
     (None, w\<lparr> display := (display w)\<lparr> pubList := map pub_item (group (pubData w) k),
                                      pubUpdated := freshness (pubData w) \<rparr> \<rparr>)"
  by (auto simp: renderPublications_def recognized_def group_def get_member_def
        ToPropertyKey_def forEach_pubList)

lemma render_unrecognized:
  "k \<notin> set recognized \<Longrightarrow> ToPropertyKey k \<notin> set object_prototype \<Longrightarrow>
   renderPublications k w =
     (None, w\<lparr> display := (display w)\<lparr> pubList := [], pubUpdated := freshness (pubData w) \<rparr> \<rparr>)"
  by (cases k) (auto simp: renderPublications_def recognized_def get_member_def ToPropertyKey_def)

lemma render_inherited:
  "ToPropertyKey k \<in> set object_prototype \<Longrightarrow>
   renderPublications k w = (Some TypeError, w\<lparr> display := (display w)\<lparr> pubList := [] \<rparr> \<rparr>)"
  by (auto simp: renderPublications_def get_member_def object_prototype_def)

lemma pub_item_eq:
  "pub_item it =
     Element ''li'' ''pub-item'' []
       [Element ''div'' ''pub-tag'' [] (if label it = [] then [] else [Text (label it)]),
        Element ''div'' [] []
          [Element ''div'' ''pub-cit'' []
             (if escapeHtml (citation it) = [] then []
              else [Markup (escapeHtml (citation it))]),
           Element ''div'' ''pub-links'' []
             (case url it of
                None \<Rightarrow> []
              | Some u \<Rightarrow>
                  if u = [] then []
                  else [Element ''a'' []
                          [(''href'', u), (''target'', ''_blank''), (''rel'', ''noreferrer'')]
                          [Text ''DOI'']])]]"
  by (cases "url it") (simp_all add: pub_item_def createElement_def Let_def)

lemma pub_item_markups:
  "m \<in> set (markups (pub_item it)) \<Longrightarrow> CHR ''<'' \<notin> set m"
  using escapeHtml_plain [of "CHR ''<''" "citation it"] by (auto simp: pub_item_eq split: if_splits)

lemma pub_item_citation:
  "by_class ''pub-cit'' (pub_item it) =
     [Element ''div'' ''pub-cit'' []
        (if escapeHtml (citation it) = [] then [] else [Markup (escapeHtml (citation it))])]"
  by (cases "url it") (simp_all add: pub_item_eq)

text \<open>
  Claim C1. For every record, the citation element of its list item holds the markup
  \<open>escapeHtml (citation it)\<close> and nothing else, and this markup reads as text that is the
  citation itself: no character of the citation is taken as markup, each reserved
  character is shown as that character. For every string, the result of one pass of
  \<open>escapeHtml\<close> reads back as the string, contains none of \<open><\<close>, \<open>>\<close>, the double quote
  and the single quote, and every \<open>&\<close> in it starts one of the five character references
  that \<open>escapeHtml\<close> writes.
\<close>

theorem citation_rendered_as_text:
  "map rendered_text (by_class ''pub-cit'' (pub_item it)) = [Some (citation it)] \<and>
   markups (pub_item it) = (if citation it = [] then [] else [escapeHtml (citation it)]) \<and>
   read_text (escapeHtml s) = Some s \<and>
   (\<forall>c \<in> set (escapeHtml s). c \<notin> {CHR ''<'', CHR ''>'', CHR 0x22, CHR 0x27}) \<and>
   (\<forall>i < length (escapeHtml s). escapeHtml s ! i = CHR ''&'' \<longrightarrow>
      (\<exists>r \<in> set references. prefix r (drop i (escapeHtml s))))"
proof -
  have "map rendered_text (by_class ''pub-cit'' (pub_item it)) = [Some (citation it)]"
    by (simp add: pub_item_citation read_text_escapeHtml escapeHtml_Nil)
  moreover have "markups (pub_item it) = (if citation it = [] then [] else [escapeHtml (citation it)])"
    by (cases "url it") (simp_all add: pub_item_eq escapeHtml_Nil)
  moreover have "read_text (escapeHtml s) = Some s" by (rule read_text_escapeHtml)
  moreover have "\<forall>c \<in> set (escapeHtml s). c \<notin> {CHR ''<'', CHR ''>'', CHR 0x22, CHR 0x27}"
    using escapeHtml_plain by blast
  moreover have "\<forall>i < length (escapeHtml s). escapeHtml s ! i = CHR ''&'' \<longrightarrow>
      (\<exists>r \<in> set references. prefix r (drop i (escapeHtml s)))"
    using concat_amp by (simp add: escapeHtml_chars)
  ultimately show ?thesis by blast
qed

theorem citation_rendered_as_text_witness:
  "citation example_j1 = ''A. Author. Signals & Systems <draft>. 2020.'' \<and>
   markups (pub_item example_j1) = [''A. Author. Signals &amp; Systems &lt;draft&gt;. 2020.''] \<and>
   map rendered_text (by_class ''pub-cit'' (pub_item example_j1)) =
     [Some ''A. Author. Signals & Systems <draft>. 2020.''] \<and>
   escapeHtml ''<b>'' = ''&lt;b&gt;'' \<and>
   read_text ''&lt;b&gt;'' = Some ''<b>'' \<and>
   CHR ''b'' \<in> set (escapeHtml ''<b>'') \<and>
   CHR ''b'' \<notin> {CHR ''<'', CHR ''>'', CHR 0x22, CHR 0x27} \<and>
   0 < length (escapeHtml ''<b>'') \<and> escapeHtml ''<b>'' ! 0 = CHR ''&'' \<and>
   (\<exists>r \<in> set references. prefix r (drop 0 (escapeHtml ''<b>'')))"
proof -
  have c: "citation example_j1 = ''A. Author. Signals & Systems <draft>. 2020.''"
    by (simp add: example_j1_def)
  have e: "escapeHtml ''A. Author. Signals & Systems <draft>. 2020.'' =
      ''A. Author. Signals &amp; Systems &lt;draft&gt;. 2020.''"
    "escapeHtml ''<b>'' = ''&lt;b&gt;''"
    by (simp_all add: escapeHtml_chars escape_char_def)
  from citation_rendered_as_text [of example_j1 "''<b>''"] show ?thesis
    unfolding c e by force
qed

lemma group_simps:
  "group d (Some ''journals'') = or_empty (journals d)"
  "group d (Some ''conferences'') = or_empty (conferences d)"
  "group d (Some ''book_chapters'') = or_empty (book_chapters d)"
  by (simp_all add: group_def)

lemma recognized_simps:
  "Some ''journals'' \<in> set recognized"
  "Some ''conferences'' \<in> set recognized"
  "Some ''book_chapters'' \<in> set recognized"
  by (simp_all add: recognized_def)

lemma field_group:
  assumes "(k, g) \<in> {(''journals'', journals d), (''conferences'', conferences d),
                      (''book_chapters'', book_chapters d)}"
  shows "Some k \<in> set recognized \<and> group d (Some k) = or_empty g"
  using assms by (elim insertE emptyE) (simp_all only: prod.inject group_simps recognized_simps)

lemma pub_item_tags: "map (localName \<circ> pub_item) recs = replicate (length recs) ''li''"
  by (induction recs) (simp_all add: pub_item_eq)

text \<open>
  Claim C2. For every document, every page and every recognized key whose group holds the
  records \<open>recs\<close>, rendering the group throws nothing and leaves in the publications list
  exactly the list items of \<open>recs\<close>, one \<open>li\<close> element per record, in the order of the
  records: the list has the length of \<open>recs\<close>.
\<close>

theorem render_group_items:
  assumes "(k, g) \<in> {(''journals'', journals (pubData w)),
                      (''conferences'', conferences (pubData w)),
                      (''book_chapters'', book_chapters (pubData w))}"
    and "g = Some recs"
  shows "fst (renderPublications (Some k) w) = None \<and>
         pubList (display (snd (renderPublications (Some k) w))) = map pub_item recs \<and>
         length (pubList (display (snd (renderPublications (Some k) w)))) = length recs \<and>
         map localName (pubList (display (snd (renderPublications (Some k) w)))) =
           replicate (length recs) ''li''"
proof -
  from field_group [OF assms(1)] assms(2)
  have "Some k \<in> set recognized" and "group (pubData w) (Some k) = recs" by simp_all
  then show ?thesis
    by (simp add: render_recognized pub_item_tags)
qed

theorem render_group_items_witness:
  "(''journals'', journals (pubData example_world)) \<in>
     {(''journals'', journals (pubData example_world)),
      (''conferences'', conferences (pubData example_world)),
      (''book_chapters'', book_chapters (pubData example_world))} \<and>
   journals (pubData example_world) = Some [example_j1, example_j2] \<and>
   fst (renderPublications (Some ''journals'') example_world) = None \<and>
   pubList (display (snd (renderPublications (Some ''journals'') example_world))) =
     [pub_item example_j1, pub_item example_j2] \<and>
   length (pubList (display (snd (renderPublications (Some ''journals'') example_world)))) = 2"
proof -
  have j: "journals (pubData example_world) = Some [example_j1, example_j2]"
    by (simp add: example_world_def example_doc_def)
  from render_group_items [of "''journals''" "journals (pubData example_world)" example_world, OF _ j]
  show ?thesis using j by simp
qed

text \<open>
  Claim C6. For every document in which the group of a recognized key is absent,
  rendering that group, and selecting its tab, throws nothing and leaves the publications
  list empty.
\<close>

theorem render_missing_group:
  assumes "(k, g) \<in> {(''journals'', journals (pubData w)),
                      (''conferences'', conferences (pubData w)),
                      (''book_chapters'', book_chapters (pubData w))}"
    and "g = None"
  shows "fst (renderPublications (Some k) w) = None \<and>
         pubList (display (snd (renderPublications (Some k) w))) = [] \<and>
         fst (setActive (Some k) w) = None \<and>
         pubList (display (snd (setActive (Some k) w))) = []"
proof -
  from field_group [OF assms(1)] assms(2)
  have "Some k \<in> set recognized" and "group (pubData w) (Some k) = []" by simp_all
  then show ?thesis
    by (simp add: render_recognized setActive_def Let_def)
qed

theorem render_missing_group_witness:
  "(''conferences'', conferences (pubData example_world)) \<in>
     {(''journals'', journals (pubData example_world)),
      (''conferences'', conferences (pubData example_world)),
      (''book_chapters'', book_chapters (pubData example_world))} \<and>
   conferences (pubData example_world) = None \<and>
   fst (renderPublications (Some ''conferences'') example_world) = None \<and>
   pubList (display (snd (renderPublications (Some ''conferences'') example_world))) = [] \<and>
   fst (setActive (Some ''conferences'') example_world) = None \<and>
   pubList (display (snd (setActive (Some ''conferences'') example_world))) = []"
proof -
  have c: "conferences (pubData example_world) = None"
    by (simp add: example_world_def example_doc_def)
  from render_missing_group [of "''conferences''" "conferences (pubData example_world)" example_world, OF _ c]
  show ?thesis using c by simp
qed

lemma pub_item_anchors:
  "anchors (pub_item it) =
     (case url it of
        None \<Rightarrow> []
      | Some u \<Rightarrow>
          if u = [] then []
          else [Element ''a'' []
                  [(''href'', u), (''target'', ''_blank''), (''rel'', ''noreferrer'')]
                  [Text ''DOI'']])"
  by (simp add: pub_item_eq split: option.splits)

text \<open>
  Claim C3, as amended. For every record: if \<open>url\<close> is absent or the empty string, the
  list item holds no link element; if \<open>url\<close> is a non-empty string, the list item holds
  exactly one link element, with the text \<open>DOI\<close> and the target \<open>url\<close>. The markup of
  the citation holds no \<open><\<close>, so it adds no element.
\<close>

theorem item_link:
  "(\<not> truthy (url it) \<longrightarrow> anchors (pub_item it) = []) \<and>
   (\<forall>u. url it = Some u \<and> u \<noteq> [] \<longrightarrow>
      anchors (pub_item it) =
        [Element ''a'' []
           [(''href'', u), (''target'', ''_blank''), (''rel'', ''noreferrer'')]
           [Text ''DOI'']]) \<and>
   (\<forall>m \<in> set (markups (pub_item it)). CHR ''<'' \<notin> set m)"
  using pub_item_markups [of _ it]
  by (cases "url it") (simp_all add: pub_item_anchors)

theorem item_link_witness:
  "\<not> truthy (url example_j2) \<and> anchors (pub_item example_j2) = [] \<and>
   url example_j1 = Some ''https://doi.org/10.1000/1'' \<and>
   anchors (pub_item example_j1) =
     [Element ''a'' []
        [(''href'', ''https://doi.org/10.1000/1''), (''target'', ''_blank''),
         (''rel'', ''noreferrer'')]
        [Text ''DOI'']] \<and>
   markups (pub_item example_j1) = [''A. Author. Signals &amp; Systems &lt;draft&gt;. 2020.''] \<and>
   CHR ''<'' \<notin> set (''A. Author. Signals &amp; Systems &lt;draft&gt;. 2020.'')"
proof -
  have u1: "url example_j1 = Some ''https://doi.org/10.1000/1''"
    and u2: "\<not> truthy (url example_j2)"
    by (simp_all add: example_j1_def example_j2_def)
  have m: "markups (pub_item example_j1) = [''A. Author. Signals &amp; Systems &lt;draft&gt;. 2020.'']"
    by (simp add: pub_item_eq example_j1_def escapeHtml_chars escape_char_def)
  from item_link [of example_j1] item_link [of example_j2] u1 u2 m
  show ?thesis by simp
qed

text \<open>
  Claim C3 as stated fails: the record \<open>example_b1\<close> has the field \<open>url\<close>, with the
  empty string as its value, and its list item holds no link element.
\<close>

theorem item_link_present_empty:
  "url example_b1 = Some [] \<and> url example_b1 \<noteq> None \<and> anchors (pub_item example_b1) = []"
  by (simp add: pub_item_eq example_b1_def)

text \<open>
  Claim C10. A record whose \<open>url\<close> is present and the empty string renders without a
  link element: the list item holds a link element exactly when \<open>url\<close> is truthy.
\<close>

theorem empty_url_no_link:
  "(url it = Some [] \<longrightarrow> anchors (pub_item it) = []) \<and>
   (anchors (pub_item it) \<noteq> [] \<longleftrightarrow> truthy (url it))"
  by (cases "url it") (simp_all add: pub_item_anchors)

theorem empty_url_no_link_witness:
  "url example_b1 = Some [] \<and> anchors (pub_item example_b1) = [] \<and>
   \<not> truthy (url example_b1)"
proof -
  have "url example_b1 = Some []" by (simp add: example_b1_def)
  with empty_url_no_link [of example_b1] show ?thesis by simp
qed

text \<open>
  Claim C4 says that every key other than the three recognized ones renders no item and
  raises no error. \<open>render_unrecognized\<close> shows this for the keys that are not
  names of members of \<open>Object.prototype\<close>. At the key \<open>constructor\<close>, which is not
  recognized, the list is emptied and then the call throws a \<open>TypeError\<close>:
  \<open>groups[tabKey]\<close> finds the inherited member, which is truthy, so \<open>|| []\<close> does not
  replace it, and it has no \<open>forEach\<close>.
\<close>

theorem render_constructor_throws:
  "Some ''constructor'' \<notin> set recognized \<and>
   fst (renderPublications (Some ''constructor'') example_world) = Some TypeError \<and>
   pubList (display (snd (renderPublications (Some ''constructor'') example_world))) = []"
  by (simp add: render_inherited ToPropertyKey_def object_prototype_def recognized_def)

section \<open>Properties of the profile links\<close>

text \<open>
  Claim C5. For each of the two links: if its setting is absent (or the empty string), the
  target is the placeholder \<open>#\<close> and the visible text is a fixed string, the profile
  address for the scholar link and the prompt \<open>Add your ORCID\<close> for the ORCID link; if
  the setting is present, the scholar link points to it with the text \<open>Open profile\<close>,
  and the ORCID link points to the identifier's page with the identifier as text. So with
  \<open>orcidId\<close> unset and \<open>scholarProfileUrl\<close> set, the scholar link is active with the
  text \<open>Open profile\<close> and the ORCID link shows the prompt with the target \<open>#\<close>.
\<close>

theorem profile_links:
  "(\<not> truthy (scholarProfileUrl cfg) \<longrightarrow>
      scholarLink (setProfileLinks cfg p) =
        \<lparr> href = ''#'',
          textContent = ''https://scholar.google.com/citations?user=pbAP-VQAAAAJ&hl=en'' \<rparr>) \<and>
   (\<not> truthy (orcidId cfg) \<longrightarrow>
      orcidLink (setProfileLinks cfg p) = \<lparr> href = ''#'', textContent = ''Add your ORCID'' \<rparr>) \<and>
   (\<forall>u. scholarProfileUrl cfg = Some u \<and> u \<noteq> [] \<longrightarrow>
      scholarLink (setProfileLinks cfg p) = \<lparr> href = u, textContent = ''Open profile'' \<rparr>) \<and>
   (\<forall>i. orcidId cfg = Some i \<and> i \<noteq> [] \<longrightarrow>
      orcidLink (setProfileLinks cfg p) = \<lparr> href = ''https://orcid.org/'' @ i, textContent = i \<rparr>)"
  by (cases "scholarProfileUrl cfg"; cases "orcidId cfg") (simp_all add: setProfileLinks_def)

theorem profile_links_witness:
  "scholarProfileUrl \<lparr> scholarProfileUrl = Some ''https://scholar.example/me'', orcidId = None \<rparr>
     = Some ''https://scholar.example/me'' \<and>
   \<not> truthy (orcidId \<lparr> scholarProfileUrl = Some ''https://scholar.example/me'', orcidId = None \<rparr>) \<and>
   scholarLink (setProfileLinks
       \<lparr> scholarProfileUrl = Some ''https://scholar.example/me'', orcidId = None \<rparr> example_page) =
     \<lparr> href = ''https://scholar.example/me'', textContent = ''Open profile'' \<rparr> \<and>
   orcidLink (setProfileLinks
       \<lparr> scholarProfileUrl = Some ''https://scholar.example/me'', orcidId = None \<rparr> example_page) =
     \<lparr> href = ''#'', textContent = ''Add your ORCID'' \<rparr>"
  using profile_links [of "\<lparr> scholarProfileUrl = Some ''https://scholar.example/me'', orcidId = None \<rparr>"
      example_page]
  by simp

section \<open>The document is only read\<close>

lemma render_pubData: "pubData (snd (renderPublications k w)) = pubData w"
  by (simp add: renderPublications_def Let_def split: member.splits)

lemma setActive_pubData: "pubData (snd (setActive k w)) = pubData w"
  by (simp add: setActive_def Let_def render_pubData)

lemma click_pubData: "pubData (snd (click i w)) = pubData w"
  by (simp add: click_def setActive_pubData)

lemma clicks_pubData: "pubData (snd (clicks is w)) = pubData w"
proof (induction "is" arbitrary: w)
  case Nil
  show ?case by simp
next
  case (Cons i "is")
  have "pubData (snd (clicks is (snd (click i w)))) = pubData w"
    by (simp add: Cons.IH click_pubData)
  then show ?case by (simp add: split_beta)
qed

text \<open>
  Claim C9. Rendering a group, selecting a tab, \<open>initTabs\<close> and every sequence of clicks
  leave the document as it was: the renderer only reads it.
\<close>

theorem document_unchanged:
  "pubData (snd (renderPublications k w)) = pubData w \<and>
   pubData (snd (setActive k w)) = pubData w \<and>
   pubData (snd (initTabs d p)) = d \<and>
   pubData (snd (click i w)) = pubData w \<and>
   pubData (snd (clicks is w)) = pubData w"
  by (simp add: render_pubData setActive_pubData click_pubData clicks_pubData initTabs_def)


section \<open>Properties of initialization\<close>

lemma notice_items:
  "occurrences ''<li'' notice = 1" "occurrences ''</li>'' notice = 1"
  by (simp_all add: notice_def)

lemma main_never_throws: "fst (main cfg e p) = None"
  by (simp add: main_def Let_def split: sum.splits prod.splits option.splits)

lemma main_load_Inl:
  "loadPublications e = Inl err \<Longrightarrow>
   main cfg e p =
     (None, (setProfileLinks cfg (p\<lparr> year := decimal (full_year e) \<rparr>))\<lparr> pubList := [Markup notice] \<rparr>)"
  by (simp add: main_def)

text \<open>
  Claim C7. If the load fails, by a transport failure, by a response that is not
  successful, or by a body that does not parse, then \<open>main\<close> throws nothing and the
  publications list holds exactly the notice, whose markup is one list item.
\<close>

theorem main_load_failure:
  assumes "fetch e (''data/publications.json?v='' @ decimal (now e)) = r"
    and "(\<exists>err. r = Inl err) \<or> (\<exists>res. r = Inr res \<and> \<not> ok res) \<or>
         (\<exists>res. r = Inr res \<and> ok res \<and> json res = None)"
  shows "fst (main cfg e p) = None \<and>
         pubList (snd (main cfg e p)) = [Markup notice] \<and>
         occurrences ''<li'' notice = 1 \<and> occurrences ''</li>'' notice = 1"
proof -
  from assms obtain err where "loadPublications e = Inl err"
    by (auto simp: loadPublications_def)
  then show ?thesis by (simp add: main_load_Inl notice_items)
qed


theorem main_load_failure_witness:
  "fetch example_env (''data/publications.json?v='' @ decimal (now example_env)) =
     Inr \<lparr> ok = False, json = None \<rparr> \<and>
   \<not> ok \<lparr> ok = False, json = None \<rparr> \<and>
   fst (main siteConfig example_env example_page) = None \<and>
   pubList (snd (main siteConfig example_env example_page)) = [Markup notice]"
proof -
  have f: "fetch example_env (''data/publications.json?v='' @ decimal (now example_env)) =
      Inr \<lparr> ok = False, json = None \<rparr>"
    by (simp add: example_env_def)
  from main_load_failure [OF f, of siteConfig example_page] f show ?thesis by simp
qed

section \<open>Properties of the tabs\<close>

lemma toggle_active: "''active'' \<in> set (toggle ''active'' b cl) \<longleftrightarrow> b"
  by (simp add: toggle_def)

lemma setActive_recognized:
  "k \<in> set recognized \<Longrightarrow>
   setActive k w =
     (None,
      w\<lparr> active := k,
         display := (display w)
           \<lparr> tabs := map (\<lambda>t. t\<lparr> classList := toggle ''active'' (dataset_tab t = k) (classList t) \<rparr>)
                        (tabs (display w)),
             pubList := map pub_item (group (pubData w) k),
             pubUpdated := freshness (pubData w) \<rparr> \<rparr>)"
  by (simp add: setActive_def Let_def render_recognized)

lemma filter_key: "distinct ks \<Longrightarrow> k \<in> set ks \<Longrightarrow> filter (\<lambda>x. x = k) ks = [k]"
  by (induction ks) (auto simp: filter_empty_conv)

lemma marked_keys:
  "map dataset_tab
     (filter (\<lambda>t. ''active'' \<in> set (classList t))
        (map (\<lambda>t. t\<lparr> classList := toggle ''active'' (dataset_tab t = k) (classList t) \<rparr>) ts)) =
   filter (\<lambda>x. x = k) (map dataset_tab ts)"
  by (induction ts) (simp_all add: toggle_active)

lemma setActive_selected:
  assumes "k \<in> set recognized" and "distinct ks" and "k \<in> set ks"
    and "map dataset_tab (tabs (display w)) = ks" and "pubData w = d"
  shows "fst (setActive k w) = None \<and> selected d ks k (snd (setActive k w))"
proof -
  have "map dataset_tab
          (map (\<lambda>t. t\<lparr> classList := toggle ''active'' (dataset_tab t = k) (classList t) \<rparr>)
             (tabs (display w))) = ks"
    using assms(4) by (simp add: comp_def)
  with assms show ?thesis
    by (simp add: setActive_recognized selected_def marked_keys filter_key)
qed

lemma clicks_selected:
  assumes "distinct ks" and "set ks \<subseteq> set recognized"
  shows "\<forall>i \<in> set is. i < length ks \<Longrightarrow> selected d ks k0 w \<Longrightarrow>
         fst (clicks is w) = replicate (length is) None \<and>
         selected d ks (if is = [] then k0 else ks ! last is) (snd (clicks is w))"
proof (induction "is" arbitrary: w k0)
  case Nil
  then show ?case by simp
next
  case (Cons i "is")
  let ?k = "ks ! i"
  from Cons.prems have i: "i < length ks" and keys: "map dataset_tab (tabs (display w)) = ks"
    and d: "pubData w = d"
    by (simp_all add: selected_def)
  from keys have "length (tabs (display w)) = length ks" by (metis length_map)
  with i have len: "i < length (tabs (display w))" by simp
  then have "dataset_tab (tabs (display w) ! i) = map dataset_tab (tabs (display w)) ! i"
    by simp
  with keys have key: "dataset_tab (tabs (display w) ! i) = ?k" by simp
  from i assms have "?k \<in> set ks" and "?k \<in> set recognized" by auto
  from setActive_selected [OF this(2) assms(1) this(1) keys d] len key
  have c: "fst (click i w) = None" and s: "selected d ks ?k (snd (click i w))"
    by (simp_all add: click_def)
  from Cons.prems have "\<forall>j \<in> set is. j < length ks" by simp
  from Cons.IH [OF this s] c show ?case
    by (cases "is = []") (simp_all add: split_beta)
qed

text \<open>
  Claim C8. On a host page whose tabs carry distinct keys, all recognized, with a tab for
  \<open>journals\<close>: after \<open>initTabs\<close> and any sequence of clicks on tabs, nothing was
  thrown, exactly one tab is marked active, namely the tab selected last (the tab of
  \<open>journals\<close> before the first click), and the publications list holds the items of that
  tab's group. The sequence of clicks is arbitrary, so this holds after every selection.
\<close>

theorem tab_selection:
  assumes "distinct (map dataset_tab (tabs p))"
    and "Some ''journals'' \<in> set (map dataset_tab (tabs p))"
    and "set (map dataset_tab (tabs p)) \<subseteq> set recognized"
    and "\<forall>i \<in> set is. i < length (tabs p)"
    and "w = snd (clicks is (snd (initTabs d p)))"
    and "sel = (if is = [] then Some ''journals'' else dataset_tab (tabs p ! last is))"
  shows "fst (initTabs d p) = None \<and>
         fst (clicks is (snd (initTabs d p))) = replicate (length is) None \<and>
         map dataset_tab (filter (\<lambda>t. ''active'' \<in> set (classList t)) (tabs (display w))) = [sel] \<and>
         length (filter (\<lambda>t. ''active'' \<in> set (classList t)) (tabs (display w))) = 1 \<and>
         active w = sel \<and>
         pubList (display w) = map pub_item (group d sel)"
proof -
  let ?ks = "map dataset_tab (tabs p)"
  have j: "Some ''journals'' \<in> set recognized" by (simp add: recognized_def)
  have init: "fst (initTabs d p) = None \<and> selected d ?ks (Some ''journals'') (snd (initTabs d p))"
    unfolding initTabs_def
    by (rule setActive_selected [OF j assms(1) assms(2)]) simp_all
  from assms(4) have "\<forall>i \<in> set is. i < length ?ks" by simp
  from clicks_selected [OF assms(1) assms(3) this, of d "Some ''journals''" "snd (initTabs d p)"] init
  have es: "fst (clicks is (snd (initTabs d p))) = replicate (length is) None"
    and sel: "selected d ?ks (if is = [] then Some ''journals'' else ?ks ! last is) w"
    by (simp_all add: assms(5))
  have "(if is = [] then Some ''journals'' else ?ks ! last is) = sel"
    using assms(4,6) by (simp add: last_in_set)
  with sel have s: "selected d ?ks sel w" by simp
  then have one: "map dataset_tab (filter (\<lambda>t. ''active'' \<in> set (classList t)) (tabs (display w))) = [sel]"
    by (simp add: selected_def)
  have "length (filter (\<lambda>t. ''active'' \<in> set (classList t)) (tabs (display w))) =
        length (map dataset_tab (filter (\<lambda>t. ''active'' \<in> set (classList t)) (tabs (display w))))"
    by simp
  also have "\<dots> = 1" by (simp only: one) simp
  finally have len: "length (filter (\<lambda>t. ''active'' \<in> set (classList t)) (tabs (display w))) = 1" .
  from init es s one len show ?thesis by (simp add: selected_def)
qed


theorem tab_selection_witness:
  "distinct (map dataset_tab (tabs example_page)) \<and>
   Some ''journals'' \<in> set (map dataset_tab (tabs example_page)) \<and>
   length (tabs example_page) = 3 \<and>
   fst (initTabs example_doc example_page) = None \<and>
   fst (clicks [1, 2] (snd (initTabs example_doc example_page))) = [None, None] \<and>
   map dataset_tab
     (filter (\<lambda>t. ''active'' \<in> set (classList t))
        (tabs (display (snd (clicks [1, 2] (snd (initTabs example_doc example_page))))))) =
     [Some ''book_chapters''] \<and>
   pubList (display (snd (clicks [1, 2] (snd (initTabs example_doc example_page))))) =
     [pub_item example_b1] \<and>
   fst (clicks [1, 2, 0] (snd (initTabs example_doc example_page))) = [None, None, None] \<and>
   map dataset_tab
     (filter (\<lambda>t. ''active'' \<in> set (classList t))
        (tabs (display (snd (clicks [1, 2, 0] (snd (initTabs example_doc example_page))))))) =
     [Some ''journals''] \<and>
   pubList (display (snd (clicks [1, 2, 0] (snd (initTabs example_doc example_page))))) =
     [pub_item example_j1, pub_item example_j2]"
proof -
  have h1: "distinct (map dataset_tab (tabs example_page))"
    and h2: "Some ''journals'' \<in> set (map dataset_tab (tabs example_page))"
    and h3: "set (map dataset_tab (tabs example_page)) \<subseteq> set recognized"
    and len: "length (tabs example_page) = 3"
    by (simp_all add: example_page_def recognized_def)
  have a: "\<forall>i \<in> set [1, 2]. i < length (tabs example_page)"
    and b: "\<forall>i \<in> set [1, 2, 0]. i < length (tabs example_page)"
    by (simp_all add: len)
  have k2: "dataset_tab (tabs example_page ! 2) = Some ''book_chapters''"
    and k0: "dataset_tab (tabs example_page ! 0) = Some ''journals''"
    by (simp_all add: example_page_def)
  have g: "group example_doc (Some ''book_chapters'') = [example_b1]"
    "group example_doc (Some ''journals'') = [example_j1, example_j2]"
    by (simp_all add: group_simps example_doc_def)
  from tab_selection [OF h1 h2 h3 a refl refl, of example_doc]
    tab_selection [OF h1 h2 h3 b refl refl, of example_doc]
  show ?thesis using h1 h2 len by (simp add: k2 k0 g)
qed

end
